theory Spec2Isabelle
  imports Complex_Main "HOL-Library.Sublist"
begin

section \<open>Strings and decoded JSON\<close>

text \<open>
  A Python \<open>str\<close> is represented by the bytes of its UTF-8 encoding, so the Korean
  literals of \<^verbatim>\<open>solvedac_server.py\<close> appear as byte lists. Concatenation and the
  substring relation on such encodings are those of the strings they encode.

  \<open>json\<close> is the value \<^verbatim>\<open>resp.json()\<close> returns: an object is the list of the entries
  of the decoded dict, looked up with \<open>map_of\<close>. A number written with a fraction or an
  exponent decodes to a float; \<open>JFloat\<close> carries its value, which for a finite float is a
  rational number.
\<close>

datatype json =
    JNull
  | JBool bool
  | JInt int
  | JFloat rat
  | JStr string
  | JArr "json list"
  | JObj "(string \<times> json) list"

text \<open>
  The rendering of an integer by an f-string, \<^verbatim>\<open>f"{page}"\<close>: decimal digits, most
  significant first, with a leading minus sign for a negative number.
\<close>

definition digit_char :: "nat \<Rightarrow> char" where
  "digit_char d = char_of (48 + d)"

function str_nat :: "nat \<Rightarrow> string" where
  "str_nat n = (if n < 10 then [digit_char n] else str_nat (n div 10) @ [digit_char (n mod 10)])"
  by pat_completeness auto
termination
  by (relation "measure (\<lambda>n. n)") auto

declare str_nat.simps [simp del]

definition str_int :: "int \<Rightarrow> string" where
  "str_int i = (if i < 0 then CHR ''-'' # str_nat (nat (- i)) else str_nat (nat i))"

section \<open>Schema types\<close>

text \<open>
  The three pydantic models of the source, each declared with \<^verbatim>\<open>extra="ignore"\<close>.
\<close>

record UserShowResponse =
  handle :: string
  tier :: int
  rating :: int
  solvedCount :: int

record Problem =
  problemId :: int
  titleKo :: "string option"
  level :: int
  isSolvable :: bool

record ProblemSearchResponse =
  count :: int
  items :: "Problem list"

section \<open>Exceptions\<close>

text \<open>
  Every exception the source raises or lets through is a value. The failure kinds of the
  specification are read off these values:
  \<^item> \<open>RuntimeError client_unavailable\<close> is \<^emph>\<open>ClientUnavailable\<close>;
  \<^item> \<open>ValueError\<close> with the not-found message is \<^emph>\<open>NotFound\<close>;
  \<^item> \<open>RuntimeError too_many_requests\<close> is \<^emph>\<open>RateLimited\<close>;
  \<^item> \<open>RuntimeError server_error\<close> is \<^emph>\<open>RemoteUnavailable\<close>;
  \<^item> \<open>HTTPStatusError s\<close>, re-raised with the response's status \<open>s\<close>, is
    \<^emph>\<open>UnexpectedStatus\<close>;
  \<^item> \<open>RuntimeError\<close> with a network-error message is \<^emph>\<open>NetworkError\<close>;
  \<^item> \<open>ValidationError\<close>, which carries the name of the schema class that rejected the
    body, is \<^emph>\<open>InvalidResponseShape\<close>.
  No exception of the source corresponds to \<^emph>\<open>InvalidArgument\<close>.
  \<open>RequestError\<close> carries the text of the transport's exception, and
  \<open>JSONDecodeError\<close> is what \<^verbatim>\<open>resp.json()\<close> raises on a body that is not JSON.
\<close>

datatype exn =
    RuntimeError string
  | ValueError string
  | HTTPStatusError int
  | RequestError string
  | ValidationError string
  | JSONDecodeError

definition client_unavailable :: string where
  "client_unavailable = ''HTTP Client is not available.''"

definition not_found_prefix :: string where
  "not_found_prefix =
     [CHR 0xEC, CHR 0x82, CHR 0xAC, CHR 0xEC, CHR 0x9A, CHR 0xA9]
     @ [CHR 0xEC, CHR 0x9E, CHR 0x90] @ '' ''
     @ [CHR 0xED, CHR 0x95, CHR 0xB8, CHR 0xEB, CHR 0x93, CHR 0xA4] @ '' '' @ [CHR 0x27]"

definition not_found_suffix :: string where
  "not_found_suffix =
     [CHR 0x27, CHR 0xEC, CHR 0x9D, CHR 0x84] @ ''('' @ [CHR 0xEB, CHR 0xA5, CHR 0xBC]
     @ '') '' @ [CHR 0xEC, CHR 0xB0, CHR 0xBE, CHR 0xEC, CHR 0x9D, CHR 0x84] @ '' ''
     @ [CHR 0xEC, CHR 0x88, CHR 0x98] @ '' ''
     @ [CHR 0xEC, CHR 0x97, CHR 0x86, CHR 0xEC, CHR 0x8A, CHR 0xB5]
     @ [CHR 0xEB, CHR 0x8B, CHR 0x88, CHR 0xEB, CHR 0x8B, CHR 0xA4] @ ''.''"

definition too_many_requests :: string where
  "too_many_requests =
     [CHR 0xEC, CHR 0x9A, CHR 0x94, CHR 0xEC, CHR 0xB2, CHR 0xAD]
     @ [CHR 0xEC, CHR 0x9D, CHR 0xB4] @ '' ''
     @ [CHR 0xEB, CHR 0xA7, CHR 0x8E, CHR 0xEC, CHR 0x8A, CHR 0xB5]
     @ [CHR 0xEB, CHR 0x8B, CHR 0x88, CHR 0xEB, CHR 0x8B, CHR 0xA4] @ ''(429). ''
     @ [CHR 0xEC, CHR 0x9E, CHR 0xA0, CHR 0xEC, CHR 0x8B, CHR 0x9C] @ '' ''
     @ [CHR 0xED, CHR 0x9B, CHR 0x84] @ '' ''
     @ [CHR 0xEB, CHR 0x8B, CHR 0xA4, CHR 0xEC, CHR 0x8B, CHR 0x9C] @ '' ''
     @ [CHR 0xEC, CHR 0x8B, CHR 0x9C, CHR 0xEB, CHR 0x8F, CHR 0x84]
     @ [CHR 0xED, CHR 0x95, CHR 0x98, CHR 0xEC, CHR 0x84, CHR 0xB8]
     @ [CHR 0xEC, CHR 0x9A, CHR 0x94] @ ''.''"

definition server_error :: string where
  "server_error =
     ''solved.ac '' @ [CHR 0xEC, CHR 0x84, CHR 0x9C, CHR 0xEB, CHR 0xB2, CHR 0x84]
     @ '' '' @ [CHR 0xEC, CHR 0x98, CHR 0xA4, CHR 0xEB, CHR 0xA5, CHR 0x98]
     @ [CHR 0xEA, CHR 0xB0, CHR 0x80] @ '' ''
     @ [CHR 0xEB, CHR 0xB0, CHR 0x9C, CHR 0xEC, CHR 0x83, CHR 0x9D]
     @ [CHR 0xED, CHR 0x96, CHR 0x88, CHR 0xEC, CHR 0x8A, CHR 0xB5]
     @ [CHR 0xEB, CHR 0x8B, CHR 0x88, CHR 0xEB, CHR 0x8B, CHR 0xA4] @ ''. ''
     @ [CHR 0xEC, CHR 0x9E, CHR 0xA0, CHR 0xEC, CHR 0x8B, CHR 0x9C] @ '' ''
     @ [CHR 0xED, CHR 0x9B, CHR 0x84] @ '' ''
     @ [CHR 0xEB, CHR 0x8B, CHR 0xA4, CHR 0xEC, CHR 0x8B, CHR 0x9C] @ '' ''
     @ [CHR 0xEC, CHR 0x8B, CHR 0x9C, CHR 0xEB, CHR 0x8F, CHR 0x84]
     @ [CHR 0xED, CHR 0x95, CHR 0x98, CHR 0xEC, CHR 0x84, CHR 0xB8]
     @ [CHR 0xEC, CHR 0x9A, CHR 0x94] @ ''.''"

text \<open>
  The sentence that closes both of these messages, in English ``try again in a moment''.
\<close>

definition retry_later :: string where
  "retry_later =
     [CHR 0xEC, CHR 0x9E, CHR 0xA0, CHR 0xEC, CHR 0x8B, CHR 0x9C] @ '' ''
     @ [CHR 0xED, CHR 0x9B, CHR 0x84] @ '' ''
     @ [CHR 0xEB, CHR 0x8B, CHR 0xA4, CHR 0xEC, CHR 0x8B, CHR 0x9C] @ '' ''
     @ [CHR 0xEC, CHR 0x8B, CHR 0x9C, CHR 0xEB, CHR 0x8F, CHR 0x84]
     @ [CHR 0xED, CHR 0x95, CHR 0x98, CHR 0xEC, CHR 0x84, CHR 0xB8]
     @ [CHR 0xEC, CHR 0x9A, CHR 0x94] @ ''.''"

definition network_error_user :: string where
  "network_error_user =
     [CHR 0xEB, CHR 0x84, CHR 0xA4, CHR 0xED, CHR 0x8A, CHR 0xB8]
     @ [CHR 0xEC, CHR 0x9B, CHR 0x8C, CHR 0xED, CHR 0x81, CHR 0xAC] @ '' ''
     @ [CHR 0xEC, CHR 0x98, CHR 0xA4, CHR 0xEB, CHR 0xA5, CHR 0x98]
     @ [CHR 0xEB, CHR 0xA1, CHR 0x9C] @ '' ''
     @ [CHR 0xEC, CHR 0x82, CHR 0xAC, CHR 0xEC, CHR 0x9A, CHR 0xA9]
     @ [CHR 0xEC, CHR 0x9E, CHR 0x90] @ '' ''
     @ [CHR 0xEC, CHR 0xA0, CHR 0x95, CHR 0xEB, CHR 0xB3, CHR 0xB4]
     @ [CHR 0xEB, CHR 0xA5, CHR 0xBC] @ '' ''
     @ [CHR 0xEA, CHR 0xB0, CHR 0x80, CHR 0xEC, CHR 0xA0, CHR 0xB8]
     @ [CHR 0xEC, CHR 0x98, CHR 0xA4, CHR 0xEC, CHR 0xA7, CHR 0x80] @ '' ''
     @ [CHR 0xEB, CHR 0xAA, CHR 0xBB, CHR 0xED, CHR 0x96, CHR 0x88]
     @ [CHR 0xEC, CHR 0x8A, CHR 0xB5, CHR 0xEB, CHR 0x8B, CHR 0x88]
     @ [CHR 0xEB, CHR 0x8B, CHR 0xA4] @ '': ''"

definition network_error_search :: string where
  "network_error_search =
     [CHR 0xEB, CHR 0x84, CHR 0xA4, CHR 0xED, CHR 0x8A, CHR 0xB8]
     @ [CHR 0xEC, CHR 0x9B, CHR 0x8C, CHR 0xED, CHR 0x81, CHR 0xAC] @ '' ''
     @ [CHR 0xEC, CHR 0x98, CHR 0xA4, CHR 0xEB, CHR 0xA5, CHR 0x98]
     @ [CHR 0xEB, CHR 0xA1, CHR 0x9C] @ '' ''
     @ [CHR 0xEB, CHR 0xAC, CHR 0xB8, CHR 0xEC, CHR 0xA0, CHR 0x9C] @ '' ''
     @ [CHR 0xEA, CHR 0xB2, CHR 0x80, CHR 0xEC, CHR 0x83, CHR 0x89]
     @ [CHR 0xEC, CHR 0x97, CHR 0x90] @ '' ''
     @ [CHR 0xEC, CHR 0x8B, CHR 0xA4, CHR 0xED, CHR 0x8C, CHR 0xA8]
     @ [CHR 0xED, CHR 0x96, CHR 0x88, CHR 0xEC, CHR 0x8A, CHR 0xB5]
     @ [CHR 0xEB, CHR 0x8B, CHR 0x88, CHR 0xEB, CHR 0x8B, CHR 0xA4] @ '': ''"

section \<open>Validation of a decoded body\<close>

text \<open>
  \<^verbatim>\<open>model_validate\<close> belongs to the schema library. What the source fixes is the shape:
  which keys are required, the declared type of each, the default of \<^verbatim>\<open>titleKo\<close>, and
  that keys outside the declaration are ignored. How a single value is checked against
  \<^verbatim>\<open>int\<close>, \<^verbatim>\<open>str\<close> or \<^verbatim>\<open>bool\<close> is the library's business, so the operations take
  these three checks as a parameter: each returns the validated value, or \<open>None\<close> when it
  rejects the input.
\<close>

record validators =
  int_field :: "json \<Rightarrow> int option"
  str_field :: "json \<Rightarrow> string option"
  bool_field :: "json \<Rightarrow> bool option"

text \<open>
  The models are declared with \<^verbatim>\<open>ConfigDict(extra="ignore")\<close> and nothing else, so the
  library validates in its default, lax mode, which converts some values of another JSON
  type instead of rejecting them. \<open>lax_int\<close>, \<open>lax_str\<close> and \<open>lax_bool\<close> write out what
  lax mode does with a value decoded from JSON:
  \<^item> for \<^verbatim>\<open>int\<close>: an integer is kept; a boolean becomes 1 or 0; a float with an integral
    value inside the 64-bit range becomes that integer and a float with a fractional part
    is rejected; a string of one to eighteen decimal digits becomes the number it writes;
    null, arrays and objects are rejected;
  \<^item> for \<^verbatim>\<open>str\<close>: a string is kept and everything else is rejected;
  \<^item> for \<^verbatim>\<open>bool\<close>: a boolean is kept; the numbers 0 and 1 become false and true and
    every other number is rejected; null, arrays and objects are rejected.
  The cases not written out (any other string for an \<^verbatim>\<open>int\<close>, an integral float outside
  the 64-bit range, a string for a \<^verbatim>\<open>bool\<close>) are answered by the argument \<open>other\<close>.
\<close>

definition digit_string :: "string \<Rightarrow> bool" where
  "digit_string s =
     (s \<noteq> [] \<and> length s \<le> 18
      \<and> list_all (\<lambda>ch. 48 \<le> (of_char ch :: nat) \<and> (of_char ch :: nat) \<le> 57) s)"

definition digits_value :: "string \<Rightarrow> int" where
  "digits_value s = foldl (\<lambda>a ch. 10 * a + (int (of_char ch) - 48)) 0 s"

definition lax_int :: "(json \<Rightarrow> int option) \<Rightarrow> json \<Rightarrow> int option" where
  "lax_int other j =
     (case j of
        JInt n \<Rightarrow> Some n
      | JBool b \<Rightarrow> Some (if b then 1 else 0)
      | JFloat x \<Rightarrow>
          if x \<noteq> of_int \<lfloor>x\<rfloor> then None
          else if - (2 ^ 63) < x \<and> x < 2 ^ 63 then Some \<lfloor>x\<rfloor>
          else other j
      | JStr s \<Rightarrow> if digit_string s then Some (digits_value s) else other j
      | JNull \<Rightarrow> None
      | JArr xs \<Rightarrow> None
      | JObj obj \<Rightarrow> None)"

definition lax_str :: "json \<Rightarrow> string option" where
  "lax_str j = (case j of JStr s \<Rightarrow> Some s | _ \<Rightarrow> None)"

definition lax_bool :: "(json \<Rightarrow> bool option) \<Rightarrow> json \<Rightarrow> bool option" where
  "lax_bool other j =
     (case j of
        JBool b \<Rightarrow> Some b
      | JInt n \<Rightarrow> if n = 0 then Some False else if n = 1 then Some True else None
      | JFloat x \<Rightarrow> if x = 0 then Some False else if x = 1 then Some True else None
      | JStr s \<Rightarrow> other j
      | JNull \<Rightarrow> None
      | JArr xs \<Rightarrow> None
      | JObj obj \<Rightarrow> None)"

definition pydantic_lax :: "validators \<Rightarrow> validators" where
  "pydantic_lax other =
     \<lparr>int_field = lax_int (int_field other),
      str_field = lax_str,
      bool_field = lax_bool (bool_field other)\<rparr>"

text \<open>
  An argument for \<open>pydantic_lax\<close> where a closed term is needed: it accepts nothing, so
  \<open>pydantic_lax no_other_conversion\<close> makes the conversions written out above and no others.
  It is used only on inputs that lie within the cases written out, where the argument is
  never consulted.
\<close>

definition no_other_conversion :: validators where
  "no_other_conversion =
     \<lparr>int_field = (\<lambda>j. None), str_field = (\<lambda>j. None), bool_field = (\<lambda>j. None)\<rparr>"

text \<open>A required field: the key must be present and its value must validate.\<close>

definition required :: "(json \<Rightarrow> 'a option) \<Rightarrow> (string \<times> json) list \<Rightarrow> string \<Rightarrow> 'a option" where
  "required v obj k = (case map_of obj k of None \<Rightarrow> None | Some j \<Rightarrow> v j)"

text \<open>
  A field declared \<^verbatim>\<open>Optional[T] = None\<close>: an absent key takes the default, a null is
  \<open>None\<close>, any other value must validate as \<open>T\<close>.
\<close>

definition optional ::
  "(json \<Rightarrow> 'a option) \<Rightarrow> (string \<times> json) list \<Rightarrow> string \<Rightarrow> 'a option option" where
  "optional v obj k =
     (case map_of obj k of
        None \<Rightarrow> Some None
      | Some JNull \<Rightarrow> Some None
      | Some j \<Rightarrow> (case v j of None \<Rightarrow> None | Some x \<Rightarrow> Some (Some x)))"

definition UserShowResponse_fields ::
  "validators \<Rightarrow> (string \<times> json) list \<Rightarrow> UserShowResponse option" where
  "UserShowResponse_fields V obj =
     (case required (str_field V) obj ''handle'' of None \<Rightarrow> None | Some h \<Rightarrow>
     (case required (int_field V) obj ''tier'' of None \<Rightarrow> None | Some t \<Rightarrow>
     (case required (int_field V) obj ''rating'' of None \<Rightarrow> None | Some r \<Rightarrow>
     (case required (int_field V) obj ''solvedCount'' of None \<Rightarrow> None | Some s \<Rightarrow>
        Some \<lparr>handle = h, tier = t, rating = r, solvedCount = s\<rparr>))))"

definition UserShowResponse_model_validate :: "validators \<Rightarrow> json \<Rightarrow> exn + UserShowResponse" where
  "UserShowResponse_model_validate V j =
     (case j of
        JObj obj \<Rightarrow>
          (case UserShowResponse_fields V obj of
             None \<Rightarrow> Inl (ValidationError ''UserShowResponse'')
           | Some u \<Rightarrow> Inr u)
      | _ \<Rightarrow> Inl (ValidationError ''UserShowResponse''))"

definition Problem_fields :: "validators \<Rightarrow> (string \<times> json) list \<Rightarrow> Problem option" where
  "Problem_fields V obj =
     (case required (int_field V) obj ''problemId'' of None \<Rightarrow> None | Some i \<Rightarrow>
     (case optional (str_field V) obj ''titleKo'' of None \<Rightarrow> None | Some t \<Rightarrow>
     (case required (int_field V) obj ''level'' of None \<Rightarrow> None | Some l \<Rightarrow>
     (case required (bool_field V) obj ''isSolvable'' of None \<Rightarrow> None | Some b \<Rightarrow>
        Some \<lparr>problemId = i, titleKo = t, level = l, isSolvable = b\<rparr>))))"

text \<open>An element of \<^verbatim>\<open>items: List[Problem]\<close>: it must be an object with valid fields.\<close>

definition Problem_validate :: "validators \<Rightarrow> json \<Rightarrow> Problem option" where
  "Problem_validate V j = (case j of JObj obj \<Rightarrow> Problem_fields V obj | _ \<Rightarrow> None)"

text \<open>
  \<^verbatim>\<open>items\<close> must be an array; its elements are validated in order and one invalid
  element invalidates the whole body.
\<close>

definition Problem_list_validate :: "validators \<Rightarrow> json \<Rightarrow> Problem list option" where
  "Problem_list_validate V j =
     (case j of JArr js \<Rightarrow> those (map (Problem_validate V) js) | _ \<Rightarrow> None)"

definition ProblemSearchResponse_fields ::
  "validators \<Rightarrow> (string \<times> json) list \<Rightarrow> ProblemSearchResponse option" where
  "ProblemSearchResponse_fields V obj =
     (case required (int_field V) obj ''count'' of None \<Rightarrow> None | Some c \<Rightarrow>
     (case required (Problem_list_validate V) obj ''items'' of None \<Rightarrow> None | Some ps \<Rightarrow>
        Some \<lparr>count = c, items = ps\<rparr>))"

definition ProblemSearchResponse_model_validate ::
  "validators \<Rightarrow> json \<Rightarrow> exn + ProblemSearchResponse" where
  "ProblemSearchResponse_model_validate V j =
     (case j of
        JObj obj \<Rightarrow>
          (case ProblemSearchResponse_fields V obj of
             None \<Rightarrow> Inl (ValidationError ''ProblemSearchResponse'')
           | Some r \<Rightarrow> Inr r)
      | _ \<Rightarrow> Inl (ValidationError ''ProblemSearchResponse''))"

section \<open>The shared HTTP client and its lifecycle\<close>

record AsyncClient =
  base_url :: string
  headers :: "(string \<times> string) list"
  timeout :: nat
  follow_redirects :: bool

definition SOLVEDAC_API_BASE_URL :: string where
  "SOLVEDAC_API_BASE_URL = ''https://solved.ac/api/v3''"

text \<open>The module-level dict \<^verbatim>\<open>state = {"http_client": None}\<close>.\<close>

record state =
  http_client :: "AsyncClient option"

definition state_init :: state where
  "state_init = \<lparr>http_client = None\<rparr>"

text \<open>
  \<^verbatim>\<open>lifespan\<close> is a context manager: the part before \<^verbatim>\<open>yield\<close> runs on entry, the
  \<^verbatim>\<open>finally\<close> block on exit. Closing the client releases the transport's connections,
  which nothing here observes; the slot is cleared whether or not a client was present.
\<close>

definition solvedac_client :: AsyncClient where
  "solvedac_client =
     \<lparr>base_url = SOLVEDAC_API_BASE_URL,
      headers = [(''X-Solvedac-Language'', ''ko'')],
      timeout = 10,
      follow_redirects = True\<rparr>"

definition lifespan_enter :: "state \<Rightarrow> state" where
  "lifespan_enter st = st\<lparr>http_client := Some solvedac_client\<rparr>"

definition lifespan_exit :: "state \<Rightarrow> state" where
  "lifespan_exit st = st\<lparr>http_client := None\<rparr>"

section \<open>Requests and the remote API\<close>

text \<open>
  The remote API is outside the program: it is a parameter \<open>net\<close> that answers a request
  with a response, or with the text of a transport failure (DNS, connect, timeout). Every
  operation returns, beside its outcome, the list of the requests it issued, so that
  ``no network call'' is the empty list.
\<close>

datatype param = PStr string | PInt int

record request =
  client :: AsyncClient
  verb :: string
  url :: string
  params :: "(string \<times> param) list"

record response =
  status_code :: int
  json_body :: "json option"

type_synonym network = "request \<Rightarrow> string + response"

text \<open>A remote that answers every request with the same status and body.\<close>

definition always_reply :: "int \<Rightarrow> json option \<Rightarrow> network" where
  "always_reply s b = (\<lambda>req. Inr \<lparr>status_code = s, json_body = b\<rparr>)"

definition get_request :: "AsyncClient \<Rightarrow> string \<Rightarrow> (string \<times> param) list \<Rightarrow> request" where
  "get_request c path ps = \<lparr>client = c, verb = ''GET'', url = path, params = ps\<rparr>"

definition client_get :: "network \<Rightarrow> request \<Rightarrow> exn + response" where
  "client_get net req = (case net req of Inl e \<Rightarrow> Inl (RequestError e) | Inr resp \<Rightarrow> Inr resp)"

text \<open>\<^verbatim>\<open>resp.raise_for_status()\<close> lets a 2xx response through and raises on any other.\<close>

definition raise_for_status :: "response \<Rightarrow> exn + response" where
  "raise_for_status resp =
     (if 200 \<le> status_code resp \<and> status_code resp < 300 then Inr resp
      else Inl (HTTPStatusError (status_code resp)))"

definition response_json :: "response \<Rightarrow> exn + json" where
  "response_json resp = (case json_body resp of None \<Rightarrow> Inl JSONDecodeError | Some j \<Rightarrow> Inr j)"

section \<open>Core operations\<close>

definition user_show_request :: "AsyncClient \<Rightarrow> string \<Rightarrow> request" where
  "user_show_request c h = get_request c ''/user/show'' [(''handle'', PStr h)]"

text \<open>The \<^verbatim>\<open>try\<close> block of \<^verbatim>\<open>get_user_info_core\<close>.\<close>

definition get_user_info_try :: "validators \<Rightarrow> network \<Rightarrow> AsyncClient \<Rightarrow> string \<Rightarrow> exn + UserShowResponse" where
  "get_user_info_try V net c h =
     (case client_get net (user_show_request c h) of Inl e \<Rightarrow> Inl e | Inr resp \<Rightarrow>
     (case raise_for_status resp of Inl e \<Rightarrow> Inl e | Inr ok \<Rightarrow>
     (case response_json ok of Inl e \<Rightarrow> Inl e | Inr j \<Rightarrow>
        UserShowResponse_model_validate V j)))"

definition get_user_info_core ::
  "validators \<Rightarrow> network \<Rightarrow> state \<Rightarrow> string \<Rightarrow> (exn + UserShowResponse) \<times> request list" where
  "get_user_info_core V net st h =
     (case http_client st of
        None \<Rightarrow> (Inl (RuntimeError client_unavailable), [])
      | Some c \<Rightarrow>
          (case get_user_info_try V net c h of
             Inl (HTTPStatusError s) \<Rightarrow>
               if s = 404 then Inl (ValueError (not_found_prefix @ h @ not_found_suffix))
               else if s = 429 then Inl (RuntimeError too_many_requests)
               else if 500 \<le> s \<and> s < 600 then Inl (RuntimeError server_error)
               else Inl (HTTPStatusError s)
           | Inl (RequestError e) \<Rightarrow> Inl (RuntimeError (network_error_user @ e))
           | r \<Rightarrow> r,
           [user_show_request c h]))"

definition search_problem_request :: "AsyncClient \<Rightarrow> string \<Rightarrow> int \<Rightarrow> request" where
  "search_problem_request c q p =
     get_request c ''/search/problem'' [(''query'', PStr q), (''page'', PInt p)]"

text \<open>The \<^verbatim>\<open>try\<close> block of \<^verbatim>\<open>search_problems_core\<close>.\<close>

definition search_problems_try ::
  "validators \<Rightarrow> network \<Rightarrow> AsyncClient \<Rightarrow> string \<Rightarrow> int \<Rightarrow> exn + ProblemSearchResponse" where
  "search_problems_try V net c q p =
     (case client_get net (search_problem_request c q p) of Inl e \<Rightarrow> Inl e | Inr resp \<Rightarrow>
     (case raise_for_status resp of Inl e \<Rightarrow> Inl e | Inr ok \<Rightarrow>
     (case response_json ok of Inl e \<Rightarrow> Inl e | Inr j \<Rightarrow>
        ProblemSearchResponse_model_validate V j)))"

definition search_problems_core ::
  "validators \<Rightarrow> network \<Rightarrow> state \<Rightarrow> string \<Rightarrow> int \<Rightarrow>
     (exn + ProblemSearchResponse) \<times> request list" where
  "search_problems_core V net st q p =
     (case http_client st of
        None \<Rightarrow> (Inl (RuntimeError client_unavailable), [])
      | Some c \<Rightarrow>
          (case search_problems_try V net c q p of
             Inl (HTTPStatusError s) \<Rightarrow>
               if s = 429 then Inl (RuntimeError too_many_requests)
               else if 500 \<le> s \<and> s < 600 then Inl (RuntimeError server_error)
               else Inl (HTTPStatusError s)
           | Inl (RequestError e) \<Rightarrow> Inl (RuntimeError (network_error_search @ e))
           | r \<Rightarrow> r,
           [search_problem_request c q p]))"

section \<open>Capability bindings\<close>

text \<open>
  The bodies of the registered handlers. Each awaits the core operation with the
  arguments it was given and returns or raises what the core does. The search handlers
  declare \<^verbatim>\<open>page: int = Field(1, ge=1)\<close>; the declaration is handed to the protocol
  runtime, and no line of the source compares \<open>page\<close> with 1.
\<close>

definition get_user_info_tool ::
  "validators \<Rightarrow> network \<Rightarrow> state \<Rightarrow> string \<Rightarrow> (exn + UserShowResponse) \<times> request list" where
  "get_user_info_tool V net st h = get_user_info_core V net st h"

definition search_problems_tool ::
  "validators \<Rightarrow> network \<Rightarrow> state \<Rightarrow> string \<Rightarrow> int \<Rightarrow>
     (exn + ProblemSearchResponse) \<times> request list" where
  "search_problems_tool V net st q p = search_problems_core V net st q p"

definition get_user_info ::
  "validators \<Rightarrow> network \<Rightarrow> state \<Rightarrow> string \<Rightarrow> (exn + UserShowResponse) \<times> request list" where
  "get_user_info V net st h = get_user_info_core V net st h"

text \<open>
  The resource \<^verbatim>\<open>solvedac://problems/search/{stub}\<close>: \<open>stub\<close> is the path segment of the
  template.
\<close>

definition search_problems ::
  "validators \<Rightarrow> network \<Rightarrow> state \<Rightarrow> string \<Rightarrow> int \<Rightarrow> string \<Rightarrow>
     (exn + ProblemSearchResponse) \<times> request list" where
  "search_problems V net st q p stub = search_problems_core V net st q p"

definition default_context :: "(string \<times> string) list" where
  "default_context = [(''lang'', ''ko'')]"

section \<open>Prompt builder\<close>

datatype role = assistant | user

record TextContent =
  type :: string
  "text" :: string

record PromptMessage =
  role :: role
  content :: TextContent

definition assistant_text :: string where
  "assistant_text =
     ''You are a Solved.ac search assistant.'' @ [CHR 0x0A] @ ''1) Convert the user''
     @ [CHR 0x27]
     @ ''s request into a precise Solved.ac query string (e.g., `tier:g5..p5 tag:dfs -tag:greedy`).''
     @ [CHR 0x0A] @ ''2) Do NOT browse the web.'' @ [CHR 0x0A]
     @ ''3) Call the MCP TOOL `solvedac_search_problems` with {query, page}.''
     @ [CHR 0x0A] @ ''4) Rank top 5 by suitability and show: problemId, titleKo, level.''"

definition request_label :: string where
  "request_label =
     [CHR 0xEC, CHR 0x9A, CHR 0x94, CHR 0xEC, CHR 0xB2, CHR 0xAD] @ ''(''
     @ [CHR 0xEC, CHR 0x9E, CHR 0x90, CHR 0xEC, CHR 0x97, CHR 0xB0]
     @ [CHR 0xEC, CHR 0x96, CHR 0xB4] @ ''): ''"

definition page_label :: string where
  "page_label =
     [CHR 0xED, CHR 0x8E, CHR 0x98, CHR 0xEC, CHR 0x9D, CHR 0xB4]
     @ [CHR 0xEC, CHR 0xA7, CHR 0x80] @ '': ''"

definition rule_line :: string where
  "rule_line =
     [CHR 0xEA, CHR 0xB7, CHR 0x9C, CHR 0xEC, CHR 0xB9, CHR 0x99] @ '': ''
     @ [CHR 0xEC, CHR 0xBF, CHR 0xBC, CHR 0xEB, CHR 0xA6, CHR 0xAC]
     @ [CHR 0xEB, CHR 0xA5, CHR 0xBC] @ '' ''
     @ [CHR 0xEB, CHR 0xA8, CHR 0xBC, CHR 0xEC, CHR 0xA0, CHR 0x80] @ '' ''
     @ [CHR 0xEC, CHR 0xA0, CHR 0x9C, CHR 0xEC, CHR 0x8B, CHR 0x9C]
     @ [CHR 0xED, CHR 0x95, CHR 0x98, CHR 0xEA, CHR 0xB3, CHR 0xA0] @ '', ''
     @ [CHR 0xEC, CHR 0x9D, CHR 0xB4, CHR 0xEC, CHR 0x96, CHR 0xB4]
     @ [CHR 0xEC, CHR 0x84, CHR 0x9C] @ '' ''
     @ [CHR 0xEB, CHR 0xA6, CHR 0xAC, CHR 0xEC, CHR 0x86, CHR 0x8C]
     @ [CHR 0xEC, CHR 0x8A, CHR 0xA4, CHR 0xEB, CHR 0xA5, CHR 0xBC] @ '' ''
     @ [CHR 0xED, CHR 0x98, CHR 0xB8, CHR 0xEC, CHR 0xB6, CHR 0x9C]
     @ [CHR 0xED, CHR 0x95, CHR 0xB4] @ '' ''
     @ [CHR 0xEA, CHR 0xB2, CHR 0xB0, CHR 0xEA, CHR 0xB3, CHR 0xBC]
     @ [CHR 0xEB, CHR 0xA5, CHR 0xBC] @ '' ''
     @ [CHR 0xED, CHR 0x8F, CHR 0x89, CHR 0xEA, CHR 0xB0, CHR 0x80]
     @ [CHR 0xED, CHR 0x95, CHR 0x98, CHR 0xEC, CHR 0x84, CHR 0xB8]
     @ [CHR 0xEC, CHR 0x9A, CHR 0x94] @ ''.''"

text \<open>The direct-callable builder, lines 111 to 140 of the source.\<close>

definition search_workflow_prompt_core :: "string \<Rightarrow> int \<Rightarrow> PromptMessage list" where
  "search_workflow_prompt_core natural_request page =
     (let sys = \<lparr>role = assistant,
                 content = \<lparr>type = ''text'', text = assistant_text\<rparr>\<rparr>;
          usr = \<lparr>role = user,
                 content = \<lparr>type = ''text'',
                            text = request_label @ natural_request @ [CHR 0x0A]
                                   @ page_label @ str_int page @ [CHR 0x0A]
                                   @ rule_line\<rparr>\<rparr>
      in [sys, usr])"

text \<open>The handler registered as the prompt \<^verbatim>\<open>solvedac.search-workflow\<close>, lines 166 to 195.\<close>

definition search_workflow_prompt :: "string \<Rightarrow> int \<Rightarrow> PromptMessage list" where
  "search_workflow_prompt natural_request page =
     (let sys = \<lparr>role = assistant,
                 content = \<lparr>type = ''text'', text = assistant_text\<rparr>\<rparr>;
          usr = \<lparr>role = user,
                 content = \<lparr>type = ''text'',
                            text = request_label @ natural_request @ [CHR 0x0A]
                                   @ page_label @ str_int page @ [CHR 0x0A]
                                   @ rule_line\<rparr>\<rparr>
      in [sys, usr])"

section \<open>Notions used to state the properties\<close>

text \<open>
  The least that is asked of the library's checks: a JSON value of the declared type is
  accepted and returned unchanged. Whatever else a check accepts or converts is left open.
\<close>

definition accepts_declared_types :: "validators \<Rightarrow> bool" where
  "accepts_declared_types V =
     ((\<forall>n. int_field V (JInt n) = Some n)
      \<and> (\<forall>s. str_field V (JStr s) = Some s)
      \<and> (\<forall>b. bool_field V (JBool b) = Some b))"




text \<open>
  A well-formed element of the \<^verbatim>\<open>items\<close> array, and the \<open>Problem\<close> it describes: an
  object whose declared keys hold the fields of \<open>pr\<close>, each as a JSON value of the declared
  type; a missing title is an absent key or a null.
\<close>

definition json_is_Problem :: "json \<Rightarrow> Problem \<Rightarrow> bool" where
  "json_is_Problem j pr =
     (case j of
        JObj obj \<Rightarrow>
          map_of obj ''problemId'' = Some (JInt (problemId pr))
          \<and> (case titleKo pr of
                None \<Rightarrow> map_of obj ''titleKo'' = None \<or> map_of obj ''titleKo'' = Some JNull
              | Some t \<Rightarrow> map_of obj ''titleKo'' = Some (JStr t))
          \<and> map_of obj ''level'' = Some (JInt (level pr))
          \<and> map_of obj ''isSolvable'' = Some (JBool (isSolvable pr))
      | _ \<Rightarrow> False)"

text \<open>A search result as the remote API sends it: 57 matches in all, two on this page.\<close>

definition sample_search_body :: "(string \<times> json) list" where
  "sample_search_body =
     [(''count'', JInt 57),
      (''items'', JArr
         [JObj [(''problemId'', JInt 1003), (''titleKo'', JStr ''fib''), (''level'', JInt 8),
                (''isSolvable'', JBool True), (''votedUserCount'', JInt 12)],
          JObj [(''problemId'', JInt 1000), (''level'', JInt 1), (''isSolvable'', JBool False)]])]"

section \<open>Auxiliary facts\<close>

lemma get_user_info_try_status:
  assumes "net (user_show_request c h) = Inr resp"
    and "\<not> (200 \<le> status_code resp \<and> status_code resp < 300)"
  shows "get_user_info_try V net c h = Inl (HTTPStatusError (status_code resp))"
  using assms by (auto simp: get_user_info_try_def client_get_def raise_for_status_def)

lemma search_problems_try_status:
  assumes "net (search_problem_request c q p) = Inr resp"
    and "\<not> (200 \<le> status_code resp \<and> status_code resp < 300)"
  shows "search_problems_try V net c q p = Inl (HTTPStatusError (status_code resp))"
  using assms by (auto simp: search_problems_try_def client_get_def raise_for_status_def)


lemma search_problems_try_ok:
  assumes "net (search_problem_request c q p) = Inr resp"
    and "status_code resp = 200" and "json_body resp = Some j"
  shows "search_problems_try V net c q p = ProblemSearchResponse_model_validate V j"
  using assms by (simp add: search_problems_try_def client_get_def raise_for_status_def response_json_def)

lemma pydantic_lax_accepts: "accepts_declared_types (pydantic_lax other)"
  by (simp add: accepts_declared_types_def pydantic_lax_def lax_int_def lax_str_def lax_bool_def)




lemma UserShowResponse_fields_ok:
  assumes "accepts_declared_types V"
    and "map_of obj ''handle'' = Some (JStr uh)"
    and "map_of obj ''tier'' = Some (JInt t)"
    and "map_of obj ''rating'' = Some (JInt r)"
    and "map_of obj ''solvedCount'' = Some (JInt sc)"
  shows "UserShowResponse_fields V obj =
           Some \<lparr>handle = uh, tier = t, rating = r, solvedCount = sc\<rparr>"
  using assms by (simp add: UserShowResponse_fields_def required_def accepts_declared_types_def)





lemma Problem_validate_ok:
  assumes "accepts_declared_types V" and "json_is_Problem j pr"
  shows "Problem_validate V j = Some pr"
proof (cases j)
  case (JObj obj)
  with assms(2) have f:
    "map_of obj ''problemId'' = Some (JInt (problemId pr))"
    "map_of obj ''level'' = Some (JInt (level pr))"
    "map_of obj ''isSolvable'' = Some (JBool (isSolvable pr))"
    and t: "case titleKo pr of
              None \<Rightarrow> map_of obj ''titleKo'' = None \<or> map_of obj ''titleKo'' = Some JNull
            | Some t \<Rightarrow> map_of obj ''titleKo'' = Some (JStr t)"
    by (simp_all add: json_is_Problem_def)
  have "optional (str_field V) obj ''titleKo'' = Some (titleKo pr)"
    using t assms(1)
    by (auto simp: optional_def accepts_declared_types_def split: option.splits)
  then have "Problem_fields V obj =
      Some \<lparr>problemId = problemId pr, titleKo = titleKo pr, level = level pr,
            isSolvable = isSolvable pr\<rparr>"
    using f assms(1) by (simp add: Problem_fields_def required_def accepts_declared_types_def)
  then show ?thesis
    using JObj by (simp add: Problem_validate_def)
qed (use assms(2) in \<open>simp_all add: json_is_Problem_def\<close>)

lemma those_map_list_all2:
  "list_all2 (\<lambda>x y. f x = Some y) xs ys \<Longrightarrow> those (map f xs) = Some ys"
  by (induction xs ys rule: list_all2_induct) simp_all

lemma Problem_list_validate_ok:
  assumes "accepts_declared_types V" and "list_all2 json_is_Problem js ps"
  shows "Problem_list_validate V (JArr js) = Some ps"
proof -
  have "list_all2 (\<lambda>j pr. Problem_validate V j = Some pr) js ps"
    using assms(2) by (rule list_all2_mono) (simp add: Problem_validate_ok [OF assms(1)])
  then show ?thesis
    by (simp add: Problem_list_validate_def those_map_list_all2)
qed

lemma str_int_examples:
  "str_int 1 = ''1'' \<and> str_int 120 = ''120'' \<and> str_int 0 = ''0'' \<and> str_int (- 42) = ''-42''"
  by code_simp

section \<open>Failure translation\<close>

text \<open>
  C2. A core operation invoked while the client slot is empty returns the
  \<open>RuntimeError\<close> of an unavailable client and issues no request. The slot is empty
  before \<^verbatim>\<open>lifespan\<close> is entered and again after it is left.
\<close>

theorem inactive_client_unavailable:
  "(http_client st = None \<longrightarrow>
      get_user_info_core V net st h = (Inl (RuntimeError client_unavailable), [])
      \<and> search_problems_core V net st q p = (Inl (RuntimeError client_unavailable), []))
   \<and> http_client state_init = None
   \<and> http_client (lifespan_exit st') = None"
  by (simp add: get_user_info_core_def search_problems_core_def state_init_def lifespan_exit_def)

theorem inactive_client_unavailable_witness:
  "get_user_info_core (pydantic_lax no_other_conversion) (\<lambda>r. Inl ''unreachable'') (lifespan_exit (lifespan_enter state_init)) ''kyungbaee''
     = (Inl (RuntimeError ''HTTP Client is not available.''), [])
   \<and> search_problems_core (pydantic_lax no_other_conversion) (\<lambda>r. Inl ''unreachable'') (lifespan_exit (lifespan_enter state_init)) ''tier:s5..g5 tag:dp'' 1
     = (Inl (RuntimeError ''HTTP Client is not available.''), [])"
  using inactive_client_unavailable [of "lifespan_exit (lifespan_enter state_init)"
      "pydantic_lax no_other_conversion" "\<lambda>r. Inl ''unreachable''" "''kyungbaee''" "''tier:s5..g5 tag:dp''" 1 state_init]
  by (simp add: lifespan_exit_def client_unavailable_def)

text \<open>
  C3. When the user lookup is answered with status 404, \<open>get_user_info_core\<close> raises a
  \<open>ValueError\<close> whose message contains the handle.
\<close>

theorem user_404_not_found:
  assumes "http_client st = Some c"
    and "net (user_show_request c h) = Inr resp"
    and "status_code resp = 404"
  shows "get_user_info_core V net st h =
           (Inl (ValueError (not_found_prefix @ h @ not_found_suffix)), [user_show_request c h])
         \<and> sublist h (not_found_prefix @ h @ not_found_suffix)"
proof -
  have "get_user_info_try V net c h = Inl (HTTPStatusError 404)"
    using get_user_info_try_status [of net c h resp V] assms by simp
  then show ?thesis
    using assms(1) by (simp add: get_user_info_core_def)
qed

theorem user_404_not_found_witness:
  "get_user_info_core (pydantic_lax no_other_conversion) (always_reply 404 None) (lifespan_enter state_init)
       ''no_such_user_xyz''
     = (Inl (ValueError (not_found_prefix @ ''no_such_user_xyz'' @ not_found_suffix)),
        [user_show_request solvedac_client ''no_such_user_xyz''])
   \<and> sublist ''no_such_user_xyz'' (not_found_prefix @ ''no_such_user_xyz'' @ not_found_suffix)"
  using user_404_not_found [where st = "lifespan_enter state_init" and c = solvedac_client
      and net = "always_reply 404 None" and h = "''no_such_user_xyz''"
      and resp = "\<lparr>status_code = 404, json_body = None\<rparr>" and V = "pydantic_lax no_other_conversion"]
  by (simp add: lifespan_enter_def always_reply_def)

text \<open>
  C4. In both core operations a 429 response becomes the \<open>RuntimeError\<close> of too many
  requests and a response with a status from 500 to 599 the \<open>RuntimeError\<close> of a server
  fault; both messages end with the advice to try again in a moment.
\<close>

theorem transient_status_failures:
  assumes "http_client st = Some c"
  shows "(net (user_show_request c h) = Inr resp \<and> status_code resp = 429 \<longrightarrow>
            get_user_info_core V net st h =
              (Inl (RuntimeError too_many_requests), [user_show_request c h]))
       \<and> (net (user_show_request c h) = Inr resp \<and> 500 \<le> status_code resp \<and> status_code resp < 600 \<longrightarrow>
            get_user_info_core V net st h =
              (Inl (RuntimeError server_error), [user_show_request c h]))
       \<and> (net (search_problem_request c q p) = Inr resp' \<and> status_code resp' = 429 \<longrightarrow>
            search_problems_core V net st q p =
              (Inl (RuntimeError too_many_requests), [search_problem_request c q p]))
       \<and> (net (search_problem_request c q p) = Inr resp' \<and> 500 \<le> status_code resp' \<and> status_code resp' < 600 \<longrightarrow>
            search_problems_core V net st q p =
              (Inl (RuntimeError server_error), [search_problem_request c q p]))
       \<and> suffix retry_later too_many_requests
       \<and> suffix retry_later server_error"
proof -
  have u: "get_user_info_core V net st h =
      (if status_code resp = 404 then Inl (ValueError (not_found_prefix @ h @ not_found_suffix))
       else if status_code resp = 429 then Inl (RuntimeError too_many_requests)
       else if 500 \<le> status_code resp \<and> status_code resp < 600 then Inl (RuntimeError server_error)
       else Inl (HTTPStatusError (status_code resp)), [user_show_request c h])"
    if "net (user_show_request c h) = Inr resp" "\<not> (200 \<le> status_code resp \<and> status_code resp < 300)"
    using get_user_info_try_status [of net c h resp V] that assms by (simp add: get_user_info_core_def)
  have s: "search_problems_core V net st q p =
      (if status_code resp' = 429 then Inl (RuntimeError too_many_requests)
       else if 500 \<le> status_code resp' \<and> status_code resp' < 600 then Inl (RuntimeError server_error)
       else Inl (HTTPStatusError (status_code resp')), [search_problem_request c q p])"
    if "net (search_problem_request c q p) = Inr resp'" "\<not> (200 \<le> status_code resp' \<and> status_code resp' < 300)"
    using search_problems_try_status [of net c q p resp' V] that assms by (simp add: search_problems_core_def)
  have m: "suffix retry_later too_many_requests \<and> suffix retry_later server_error"
    by (simp add: retry_later_def too_many_requests_def server_error_def suffix_to_prefix)
  show ?thesis using u s m by simp
qed

theorem transient_status_failures_witness:
  "get_user_info_core (pydantic_lax no_other_conversion) (always_reply 429 None) (lifespan_enter state_init) ''kyungbaee''
     = (Inl (RuntimeError too_many_requests), [user_show_request solvedac_client ''kyungbaee''])
   \<and> get_user_info_core (pydantic_lax no_other_conversion) (always_reply 503 None) (lifespan_enter state_init) ''kyungbaee''
     = (Inl (RuntimeError server_error), [user_show_request solvedac_client ''kyungbaee''])
   \<and> search_problems_core (pydantic_lax no_other_conversion) (always_reply 429 None) (lifespan_enter state_init) ''tag:dp'' 1
     = (Inl (RuntimeError too_many_requests), [search_problem_request solvedac_client ''tag:dp'' 1])
   \<and> search_problems_core (pydantic_lax no_other_conversion) (always_reply 503 None) (lifespan_enter state_init) ''tag:dp'' 1
     = (Inl (RuntimeError server_error), [search_problem_request solvedac_client ''tag:dp'' 1])"
  using
    transient_status_failures [where st = "lifespan_enter state_init" and c = solvedac_client
      and net = "always_reply 429 None" and h = "''kyungbaee''" and q = "''tag:dp''" and p = 1
      and resp = "\<lparr>status_code = 429, json_body = None\<rparr>"
      and resp' = "\<lparr>status_code = 429, json_body = None\<rparr>" and V = "pydantic_lax no_other_conversion"]
    transient_status_failures [where st = "lifespan_enter state_init" and c = solvedac_client
      and net = "always_reply 503 None" and h = "''kyungbaee''" and q = "''tag:dp''" and p = 1
      and resp = "\<lparr>status_code = 503, json_body = None\<rparr>"
      and resp' = "\<lparr>status_code = 503, json_body = None\<rparr>" and V = "pydantic_lax no_other_conversion"]
  by (simp add: lifespan_enter_def always_reply_def)

text \<open>
  C5. \<open>search_problems_core\<close> has no branch for 404: a response with a 4xx status other
  than 429, 404 included, re-raises the \<open>HTTPStatusError\<close> with the status it came with.
\<close>

theorem search_4xx_unexpected_status:
  assumes "http_client st = Some c"
    and "net (search_problem_request c q p) = Inr resp"
    and "400 \<le> status_code resp" and "status_code resp < 500" and "status_code resp \<noteq> 429"
  shows "search_problems_core V net st q p =
           (Inl (HTTPStatusError (status_code resp)), [search_problem_request c q p])
         \<and> (\<forall>msg. fst (search_problems_core V net st q p) \<noteq> Inl (ValueError msg))"
proof -
  have "search_problems_try V net c q p = Inl (HTTPStatusError (status_code resp))"
    using search_problems_try_status [of net c q p resp V] assms by simp
  then show ?thesis
    using assms by (simp add: search_problems_core_def)
qed


theorem search_4xx_unexpected_status_witness:
  "search_problems_core (pydantic_lax no_other_conversion) (always_reply 404 None) (lifespan_enter state_init) ''tag:dp'' 1
     = (Inl (HTTPStatusError 404), [search_problem_request solvedac_client ''tag:dp'' 1])"
  using search_4xx_unexpected_status [where st = "lifespan_enter state_init" and c = solvedac_client
      and net = "always_reply 404 None" and q = "''tag:dp''" and p = 1
      and resp = "\<lparr>status_code = 404, json_body = None\<rparr>" and V = "pydantic_lax no_other_conversion"]
  by (simp add: lifespan_enter_def always_reply_def)

section \<open>Successful responses\<close>




text \<open>
  C8. For a search answered with status 200 and an object whose \<^verbatim>\<open>count\<close> is an integer
  and whose \<^verbatim>\<open>items\<close> is an array of well-formed elements, the result carries that
  \<^verbatim>\<open>count\<close>, whatever the number of elements, and one \<open>Problem\<close> for each element, in the
  order of the array.
\<close>

theorem search_ok_body:
  assumes "http_client st = Some c"
    and "net (search_problem_request c q p) = Inr resp"
    and "status_code resp = 200"
    and "json_body resp = Some (JObj obj)"
    and "accepts_declared_types V"
    and "map_of obj ''count'' = Some (JInt n)"
    and "map_of obj ''items'' = Some (JArr js)"
    and "list_all2 json_is_Problem js ps"
  shows "search_problems_core V net st q p =
           (Inr \<lparr>count = n, items = ps\<rparr>, [search_problem_request c q p])
         \<and> length ps = length js
         \<and> (\<forall>i < length js. json_is_Problem (js ! i) (ps ! i))"
proof -
  have "search_problems_try V net c q p = ProblemSearchResponse_model_validate V (JObj obj)"
    using search_problems_try_ok [of net c q p resp "JObj obj" V] assms by simp
  moreover have "ProblemSearchResponse_fields V obj = Some \<lparr>count = n, items = ps\<rparr>"
    using assms(5,6,7) Problem_list_validate_ok [OF assms(5,8)]
    by (simp add: ProblemSearchResponse_fields_def required_def accepts_declared_types_def)
  ultimately have "search_problems_core V net st q p =
           (Inr \<lparr>count = n, items = ps\<rparr>, [search_problem_request c q p])"
    using assms(1) by (simp add: search_problems_core_def ProblemSearchResponse_model_validate_def)
  then show ?thesis
    using assms(8) by (simp add: list_all2_conv_all_nth)
qed

theorem search_ok_body_witness:
  "search_problems_core (pydantic_lax no_other_conversion) (always_reply 200 (Some (JObj sample_search_body)))
       (lifespan_enter state_init) ''tier:s5..g5 tag:dp'' 1
     = (Inr \<lparr>count = 57,
             items = [\<lparr>problemId = 1003, titleKo = Some ''fib'', level = 8, isSolvable = True\<rparr>,
                      \<lparr>problemId = 1000, titleKo = None, level = 1, isSolvable = False\<rparr>]\<rparr>,
        [search_problem_request solvedac_client ''tier:s5..g5 tag:dp'' 1])"
  using search_ok_body [where st = "lifespan_enter state_init" and c = solvedac_client
      and net = "always_reply 200 (Some (JObj sample_search_body))"
      and q = "''tier:s5..g5 tag:dp''" and p = 1
      and resp = "\<lparr>status_code = 200, json_body = Some (JObj sample_search_body)\<rparr>"
      and obj = sample_search_body and V = "pydantic_lax no_other_conversion" and n = 57
      and js = "[JObj [(''problemId'', JInt 1003), (''titleKo'', JStr ''fib''), (''level'', JInt 8),
                (''isSolvable'', JBool True), (''votedUserCount'', JInt 12)],
          JObj [(''problemId'', JInt 1000), (''level'', JInt 1), (''isSolvable'', JBool False)]]"
      and ps = "[\<lparr>problemId = 1003, titleKo = Some ''fib'', level = 8, isSolvable = True\<rparr>,
                      \<lparr>problemId = 1000, titleKo = None, level = 1, isSolvable = False\<rparr>]"]
    pydantic_lax_accepts
  by (simp add: lifespan_enter_def always_reply_def sample_search_body_def json_is_Problem_def)


section \<open>The bound on the page\<close>

text \<open>
  \<open>search_problems_core\<close> called with an active client and page 0 sends the request, page 0
  in its parameters, and returns what the reply decodes to.
\<close>

theorem search_core_page_zero_counterexample:
  "search_problems_core (pydantic_lax no_other_conversion)
       (always_reply 200 (Some (JObj [(''count'', JInt 0), (''items'', JArr [])])))
       (lifespan_enter state_init) ''tier:g5..p5 tag:dfs'' 0
     = (Inr \<lparr>count = 0, items = []\<rparr>,
        [\<lparr>client = solvedac_client, verb = ''GET'', url = ''/search/problem'',
          params = [(''query'', PStr ''tier:g5..p5 tag:dfs''), (''page'', PInt 0)]\<rparr>])"
  by (simp add: search_problems_core_def search_problems_try_def client_get_def
      raise_for_status_def response_json_def always_reply_def lifespan_enter_def
      search_problem_request_def get_request_def ProblemSearchResponse_model_validate_def
      ProblemSearchResponse_fields_def Problem_list_validate_def required_def
      pydantic_lax_def lax_int_def)

text \<open>
  C1, as amended. The code does not validate the page, below 1 or not. Without an active
  client \<open>search_problems_core\<close> fails with the \<open>RuntimeError\<close> of an unavailable client and
  issues no request. With an active client it issues exactly one request, which carries
  the query and the page it was given, and its outcome depends on the page only through
  the reply: two calls whose requests are answered alike end alike. The tool and the
  resource handler do what the core does.
\<close>

theorem search_page_forwarded_unchecked:
  "(http_client st = None \<longrightarrow>
      search_problems_core V net st q p = (Inl (RuntimeError client_unavailable), []))
   \<and> (http_client st = Some c \<longrightarrow>
        snd (search_problems_core V net st q p) =
          [\<lparr>client = c, verb = ''GET'', url = ''/search/problem'',
            params = [(''query'', PStr q), (''page'', PInt p)]\<rparr>]
        \<and> (net (search_problem_request c q p) = net (search_problem_request c q p') \<longrightarrow>
             fst (search_problems_core V net st q p) = fst (search_problems_core V net st q p')))
   \<and> search_problems_tool V net st q p = search_problems_core V net st q p
   \<and> search_problems V net st q p stub = search_problems_core V net st q p"
  by (simp add: search_problems_core_def search_problems_try_def client_get_def
      search_problem_request_def get_request_def search_problems_tool_def search_problems_def)

theorem search_page_forwarded_unchecked_witness:
  "snd (search_problems_core (pydantic_lax no_other_conversion)
          (always_reply 200 (Some (JObj sample_search_body))) (lifespan_enter state_init)
          ''tier:g5..p5 tag:dfs'' 0)
     = [\<lparr>client = solvedac_client, verb = ''GET'', url = ''/search/problem'',
          params = [(''query'', PStr ''tier:g5..p5 tag:dfs''), (''page'', PInt 0)]\<rparr>]
   \<and> fst (search_problems_core (pydantic_lax no_other_conversion)
          (always_reply 200 (Some (JObj sample_search_body))) (lifespan_enter state_init)
          ''tier:g5..p5 tag:dfs'' 0)
     = fst (search_problems_core (pydantic_lax no_other_conversion)
          (always_reply 200 (Some (JObj sample_search_body))) (lifespan_enter state_init)
          ''tier:g5..p5 tag:dfs'' 1)
   \<and> search_problems_core (pydantic_lax no_other_conversion)
          (always_reply 200 (Some (JObj sample_search_body))) state_init ''tier:g5..p5 tag:dfs'' 0
     = (Inl (RuntimeError client_unavailable), [])"
  using
    search_page_forwarded_unchecked [where p = 0 and p' = 1 and st = "lifespan_enter state_init"
      and c = solvedac_client and V = "pydantic_lax no_other_conversion"
      and net = "always_reply 200 (Some (JObj sample_search_body))"
      and q = "''tier:g5..p5 tag:dfs''"]
    search_page_forwarded_unchecked [where p = 0 and st = state_init
      and V = "pydantic_lax no_other_conversion"
      and net = "always_reply 200 (Some (JObj sample_search_body))"
      and q = "''tier:g5..p5 tag:dfs''"]
  by (simp add: lifespan_enter_def state_init_def always_reply_def)

section \<open>The prompt builder\<close>

text \<open>
  C7. \<open>search_workflow_prompt_core\<close> is a total function of its two arguments and
  nothing else, so it cannot fail and equal inputs give equal outputs. For every request
  and every page, those from 1 on included, it returns two messages, the first of role
  assistant and the second of role user, and the text of the second contains the request
  and the decimal rendering of the page.
\<close>

theorem prompt_two_messages:
  "length (search_workflow_prompt_core natural_request page) = 2
   \<and> role (search_workflow_prompt_core natural_request page ! 0) = assistant
   \<and> role (search_workflow_prompt_core natural_request page ! 1) = user
   \<and> sublist natural_request (text (content (search_workflow_prompt_core natural_request page ! 1)))
   \<and> sublist (str_int page) (text (content (search_workflow_prompt_core natural_request page ! 1)))"
proof -
  let ?t = "request_label @ natural_request @ [CHR 0x0A] @ page_label @ str_int page
            @ [CHR 0x0A] @ rule_line"
  have msgs: "search_workflow_prompt_core natural_request page =
      [\<lparr>role = assistant, content = \<lparr>type = ''text'', text = assistant_text\<rparr>\<rparr>,
       \<lparr>role = user, content = \<lparr>type = ''text'', text = ?t\<rparr>\<rparr>]"
    by (simp add: search_workflow_prompt_core_def)
  have "sublist natural_request ?t"
    by (rule sublist_appendI)
  moreover have "?t = (request_label @ natural_request @ [CHR 0x0A] @ page_label)
                       @ str_int page @ ([CHR 0x0A] @ rule_line)"
    by simp
  then have "sublist (str_int page) ?t"
    unfolding sublist_def by blast
  ultimately show ?thesis
    by (simp add: msgs)
qed

text \<open>
  C9. The handler registered as a prompt and the direct-callable builder return the same
  messages on every input.
\<close>

theorem registered_prompt_is_core:
  "search_workflow_prompt natural_request page = search_workflow_prompt_core natural_request page"
  by (simp add: search_workflow_prompt_def search_workflow_prompt_core_def)

section \<open>The search resource\<close>

text \<open>
  C10. The outcome of the search resource, its result or failure and the requests it
  issues, does not depend on the path segment \<open>stub\<close>.
\<close>

theorem search_resource_ignores_stub:
  "search_problems V net st q p stub = search_problems V net st q p stub'"
  by (simp add: search_problems_def)


end
